theory Spec2Isabelle
  imports Complex_Main "HOL-Library.Word"
begin

section \<open>Numbers\<close>

text \<open>
  The script \<^verbatim>\<open>scripts/visualization.py\<close> computes with Python ints and floats and
  with numpy arrays of them. A finite float is modelled as the real number it denotes,
  so rounding is outside this development. A float that is not finite (an infinity or
  NaN) is the one value \<open>NonFinite\<close>: in the sums, differences and products of the script
  it gives a non-finite result again, and so does a division by zero. The arguments of
  the functions are finite.
\<close>

datatype float64 = Fin real | NonFinite

fun fadd :: "float64 \<Rightarrow> float64 \<Rightarrow> float64" where
  "fadd (Fin a) (Fin b) = Fin (a + b)"
| "fadd _ _ = NonFinite"

fun fsub :: "float64 \<Rightarrow> float64 \<Rightarrow> float64" where
  "fsub (Fin a) (Fin b) = Fin (a - b)"
| "fsub _ _ = NonFinite"

fun fmul :: "float64 \<Rightarrow> float64 \<Rightarrow> float64" where
  "fmul (Fin a) (Fin b) = Fin (a * b)"
| "fmul _ _ = NonFinite"

text \<open>Division of a float by a finite float: numpy gives an infinity or NaN for a
  divisor zero (with a warning, not an exception).\<close>

fun fdiv_finite :: "float64 \<Rightarrow> real \<Rightarrow> float64" where
  "fdiv_finite (Fin a) b = (if b = 0 then NonFinite else Fin (a / b))"
| "fdiv_finite NonFinite b = NonFinite"

text \<open>
  A number passed to \<^verbatim>\<open>create_camera_frustum\<close>: a Python int or a finite Python float.
  numpy stores the ints of \<^verbatim>\<open>corners_2d\<close> as int64 (its default integer type is taken
  to be the 64-bit one) and combines a Python int with an int64 scalar in int64, so an
  int argument is taken in the int64 range, as a 64-bit word read as a signed number.
\<close>

datatype pynum = PyInt "64 word" | PyFloat real

fun py_real :: "pynum \<Rightarrow> real" where
  "py_real (PyInt n) = real_of_int (sint n)"
| "py_real (PyFloat x) = x"

text \<open>A numpy scalar: an element of an int64 array or of a float64 array.\<close>

datatype npnum = I64 "64 word" | F64 float64

fun np_float :: "npnum \<Rightarrow> float64" where
  "np_float (I64 n) = Fin (real_of_int (sint n))"
| "np_float (F64 x) = x"

text \<open>
  \<^verbatim>\<open>a - b\<close> and \<^verbatim>\<open>a * b\<close> for a numpy scalar and a Python number: int64 with a Python int
  stays int64 and wraps around on overflow; every other pairing is computed in float64.
  \<^verbatim>\<open>a / b\<close> is always computed in float64.
\<close>

fun np_sub :: "npnum \<Rightarrow> pynum \<Rightarrow> npnum" where
  "np_sub (I64 a) (PyInt b) = I64 (a - b)"
| "np_sub a b = F64 (fsub (np_float a) (Fin (py_real b)))"

fun np_mul :: "npnum \<Rightarrow> pynum \<Rightarrow> npnum" where
  "np_mul (I64 a) (PyInt b) = I64 (a * b)"
| "np_mul a b = F64 (fmul (np_float a) (Fin (py_real b)))"

definition np_truediv :: "npnum \<Rightarrow> pynum \<Rightarrow> float64" where
  "np_truediv a b = fdiv_finite (np_float a) (py_real b)"

section \<open>Geometry values\<close>

text \<open>A 3-vector is a triple, a 3x3 matrix the triple of its rows. The arguments of the
  functions are vectors and matrices of finite numbers; the points of a line set are
  vectors of floats.\<close>

type_synonym vec3 = "real \<times> real \<times> real"

type_synonym mat3 = "vec3 \<times> vec3 \<times> vec3"

type_synonym fvec3 = "float64 \<times> float64 \<times> float64"

text \<open>A 3xN array is kept as its three rows, an Nx3 array as the list of its rows.\<close>

type_synonym arr3N = "float64 list \<times> float64 list \<times> float64 list"

definition vec_add :: "vec3 \<Rightarrow> vec3 \<Rightarrow> vec3" where
  "vec_add p q =
     (case p of (px, py, pz) \<Rightarrow> (case q of (qx, qy, qz) \<Rightarrow> (px + qx, py + qy, pz + qz)))"

definition fin3 :: "vec3 \<Rightarrow> fvec3" where
  "fin3 p = (case p of (x, y, z) \<Rightarrow> (Fin x, Fin y, Fin z))"

definition fvec_add :: "fvec3 \<Rightarrow> fvec3 \<Rightarrow> fvec3" where
  "fvec_add p q =
     (case p of (px, py, pz) \<Rightarrow>
     (case q of (qx, qy, qz) \<Rightarrow> (fadd px qx, fadd py qy, fadd pz qz)))"

text \<open>\<^verbatim>\<open>A.T\<close> on an Nx3 array: column k of the rows becomes row k.\<close>

definition transpose_N3 :: "fvec3 list \<Rightarrow> arr3N" where
  "transpose_N3 rows = (map fst rows, map (fst \<circ> snd) rows, map (snd \<circ> snd) rows)"

text \<open>\<^verbatim>\<open>A.T\<close> on a 3xN array: the j-th entries of the three rows become row j.\<close>

fun transpose_3N :: "arr3N \<Rightarrow> fvec3 list" where
  "transpose_3N (x # xs, y # ys, z # zs) = (x, y, z) # transpose_3N (xs, ys, zs)"
| "transpose_3N _ = []"

text \<open>One row of \<^verbatim>\<open>R @ A\<close> for a 3xN array \<open>A\<close>: entry j is the dot product of the
  row of \<open>R\<close> with column j of \<open>A\<close>.\<close>

fun row_times :: "vec3 \<Rightarrow> arr3N \<Rightarrow> float64 list" where
  "row_times (a, b, c) (x # xs, y # ys, z # zs) =
     fadd (fadd (fmul (Fin a) x) (fmul (Fin b) y)) (fmul (Fin c) z)
       # row_times (a, b, c) (xs, ys, zs)"
| "row_times _ _ = []"

definition matmul_3N :: "mat3 \<Rightarrow> arr3N \<Rightarrow> arr3N" where
  "matmul_3N R A = (case R of (r0, r1, r2) \<Rightarrow> (row_times r0 A, row_times r1 A, row_times r2 A))"

text \<open>\<^verbatim>\<open>A + v\<close> for an Nx3 array and a 3-vector: numpy adds \<open>v\<close> to every row.\<close>

definition broadcast_add :: "fvec3 list \<Rightarrow> vec3 \<Rightarrow> fvec3 list" where
  "broadcast_add rows v = map (\<lambda>p. fvec_add p (fin3 v)) rows"

section \<open>The camera frustum\<close>

text \<open>The line set handed to the viewer: points, index pairs, one colour per line.\<close>

record line_set =
  points :: "fvec3 list"
  lines :: "(nat \<times> nat) list"
  colors :: "vec3 list"

text \<open>
  \<^verbatim>\<open>corners_2d\<close> (lines 50 to 55): an int64 array when \<^verbatim>\<open>width\<close> and \<^verbatim>\<open>height\<close> are
  both ints, a float64 array as soon as one of them is a float.
\<close>

fun corners_2d :: "pynum \<Rightarrow> pynum \<Rightarrow> (npnum \<times> npnum) list" where
  "corners_2d (PyInt w) (PyInt h) =
     [(I64 0, I64 0), (I64 w, I64 0), (I64 w, I64 h), (I64 0, I64 h)]"
| "corners_2d width height =
     [(F64 (Fin 0), F64 (Fin 0)),
      (F64 (Fin (py_real width)), F64 (Fin 0)),
      (F64 (Fin (py_real width)), F64 (Fin (py_real height))),
      (F64 (Fin 0), F64 (Fin (py_real height)))]"

text \<open>
  The loop of lines 58 to 63: each pixel corner \<open>(u, v)\<close> is appended to
  \<^verbatim>\<open>corners_3d_cam\<close> as \<open>[(u - cx)*depth/fx, (v - cy)*depth/fy, depth]\<close>, which
  \<^verbatim>\<open>np.array\<close> then turns into rows of floats.
\<close>

fun project_corners ::
  "pynum \<Rightarrow> pynum \<Rightarrow> pynum \<Rightarrow> pynum \<Rightarrow> pynum \<Rightarrow> (npnum \<times> npnum) list \<Rightarrow> fvec3 list
     \<Rightarrow> fvec3 list" where
  "project_corners fx fy cx cy depth [] corners_3d_cam = corners_3d_cam"
| "project_corners fx fy cx cy depth ((u, v) # rest) corners_3d_cam =
     (let x = np_truediv (np_mul (np_sub u cx) depth) fx;
          y = np_truediv (np_mul (np_sub v cy) depth) fy;
          z = Fin (py_real depth)
      in project_corners fx fy cx cy depth rest (corners_3d_cam @ [(x, y, z)]))"

text \<open>The row that one pass of this loop appends, for the corner \<open>(u, v)\<close>.\<close>

definition camera_point :: "pynum \<Rightarrow> pynum \<Rightarrow> pynum \<Rightarrow> pynum \<Rightarrow> pynum \<Rightarrow> npnum \<times> npnum \<Rightarrow> fvec3" where
  "camera_point fx fy cx cy depth uv =
     (case uv of (u, v) \<Rightarrow>
        (np_truediv (np_mul (np_sub u cx) depth) fx,
         np_truediv (np_mul (np_sub v cy) depth) fy,
         Fin (py_real depth)))"

definition create_camera_frustum ::
  "vec3 \<Rightarrow> mat3 \<Rightarrow> pynum \<Rightarrow> pynum \<Rightarrow> pynum \<Rightarrow> pynum \<Rightarrow> pynum \<Rightarrow> pynum \<Rightarrow> pynum \<Rightarrow> line_set" where
  "create_camera_frustum camera_translation camera_rotation fx fy cx cy width height depth =
     (let cam_center = camera_translation;
          R = camera_rotation;
          corners_3d_cam = project_corners fx fy cx cy depth (corners_2d width height) [];
          corners_3d_world =
            broadcast_add (transpose_3N (matmul_3N R (transpose_N3 corners_3d_cam))) cam_center;
          pts = [fin3 cam_center] @ corners_3d_world;
          lns = [(0, 1), (0, 2), (0, 3), (0, 4), (1, 2), (2, 3), (3, 4), (4, 1)]
      in \<lparr> points = pts, lines = lns, colors = map (\<lambda>_. (0, 1, 0)) lns \<rparr>)"

text \<open>The call with the default arguments of the signature (lines 24 to 26): ints, except
  for the depth \<^verbatim>\<open>5.0\<close>.\<close>

definition create_camera_frustum_default :: "vec3 \<Rightarrow> mat3 \<Rightarrow> line_set" where
  "create_camera_frustum_default camera_translation camera_rotation =
     create_camera_frustum camera_translation camera_rotation
       (PyInt 500) (PyInt 500) (PyInt 320) (PyInt 240) (PyInt 640) (PyInt 480) (PyFloat 5)"

text \<open>
  The specification's formulas, kept apart from the code, on the numbers that the
  arguments denote: the inverse pinhole model, the product of a 3x3 matrix with a
  3-vector, and the world-frame point \<open>R @ cam_point + camera_position\<close>.
\<close>

definition spec_unproject :: "real \<Rightarrow> real \<Rightarrow> real \<Rightarrow> real \<Rightarrow> real \<Rightarrow> real \<times> real \<Rightarrow> fvec3" where
  "spec_unproject fx fy cx cy depth uv =
     (case uv of (u, v) \<Rightarrow>
        (fdiv_finite (Fin ((u - cx) * depth)) fx, fdiv_finite (Fin ((v - cy) * depth)) fy,
         Fin depth))"

definition dot3 :: "vec3 \<Rightarrow> vec3 \<Rightarrow> real" where
  "dot3 p q = (case p of (a, b, c) \<Rightarrow> (case q of (x, y, z) \<Rightarrow> a * x + b * y + c * z))"

definition fdot3 :: "vec3 \<Rightarrow> fvec3 \<Rightarrow> float64" where
  "fdot3 p q =
     (case p of (a, b, c) \<Rightarrow>
     (case q of (x, y, z) \<Rightarrow> fadd (fadd (fmul (Fin a) x) (fmul (Fin b) y)) (fmul (Fin c) z)))"

definition mat_vec :: "mat3 \<Rightarrow> fvec3 \<Rightarrow> fvec3" where
  "mat_vec R p = (case R of (r0, r1, r2) \<Rightarrow> (fdot3 r0 p, fdot3 r1 p, fdot3 r2 p))"

definition spec_world_point :: "mat3 \<Rightarrow> vec3 \<Rightarrow> fvec3 \<Rightarrow> fvec3" where
  "spec_world_point R t cam_point = fvec_add (mat_vec R cam_point) (fin3 t)"

definition identity3 :: mat3 where
  "identity3 = ((1, 0, 0), (0, 1, 0), (0, 0, 1))"

text \<open>
  When the int64 arithmetic of the loop is exact: for an int64 pixel coordinate \<open>a\<close> and
  an int \<open>c\<close>, the difference \<open>a - c\<close> lies in the int64 range, and so does its product
  with the depth when the depth is an int as well.
\<close>

definition in_int64 :: "int \<Rightarrow> bool" where
  "in_int64 n = (- (2 ^ 63) \<le> n \<and> n < 2 ^ 63)"

fun sub_mul_exact :: "64 word \<Rightarrow> pynum \<Rightarrow> pynum \<Rightarrow> bool" where
  "sub_mul_exact a (PyInt c) (PyInt d) =
     (in_int64 (sint a - sint c) \<and> in_int64 ((sint a - sint c) * sint d))"
| "sub_mul_exact a (PyInt c) (PyFloat d) = in_int64 (sint a - sint c)"
| "sub_mul_exact a (PyFloat c) d = True"

fun corners_exact :: "pynum \<Rightarrow> pynum \<Rightarrow> pynum \<Rightarrow> pynum \<Rightarrow> pynum \<Rightarrow> bool" where
  "corners_exact (PyInt w) (PyInt h) cx cy depth =
     (sub_mul_exact 0 cx depth \<and> sub_mul_exact w cx depth \<and>
      sub_mul_exact 0 cy depth \<and> sub_mul_exact h cy depth)"
| "corners_exact width height cx cy depth = True"

section \<open>Python values and exceptions\<close>

text \<open>
  What \<^verbatim>\<open>json.load\<close> returns: \<^verbatim>\<open>None\<close>, a bool, an int, a float, a string, a list,
  or a dict (its items in insertion order, keys distinct). The driver reads the fields of
  the object records from such values, so a missing key or a value of the wrong kind is
  an input the model can express.
\<close>

datatype json =
    JNull
  | JBool bool
  | JInt int
  | JFloat real
  | JStr string
  | JArr "json list"
  | JObj "(string \<times> json) list"

datatype py_error =
    KeyError string
  | IndexError
  | TypeError
  | AttributeError
  | RuntimeError

text \<open>\<^verbatim>\<open>obj["k"]\<close> with a string key: only a dict accepts it, and a dict without the key
  raises \<^verbatim>\<open>KeyError\<close>.\<close>

fun getitem_key :: "json \<Rightarrow> string \<Rightarrow> py_error + json" where
  "getitem_key (JObj kvs) k = (case map_of kvs k of None \<Rightarrow> Inl (KeyError k) | Some v \<Rightarrow> Inr v)"
| "getitem_key _ k = Inl TypeError"

text \<open>\<^verbatim>\<open>d.items()\<close>: only a dict has the method.\<close>

fun items :: "json \<Rightarrow> py_error + (string \<times> json) list" where
  "items (JObj kvs) = Inr kvs"
| "items _ = Inl AttributeError"

text \<open>\<^verbatim>\<open>xs[i]\<close> on a list with an int index: negative indices count from the end.\<close>

definition list_index :: "'a list \<Rightarrow> int \<Rightarrow> py_error + 'a" where
  "list_index xs i =
     (if 0 \<le> i \<and> i < int (length xs) then Inr (xs ! nat i)
      else if i < 0 \<and> - int (length xs) \<le> i then Inr (xs ! nat (int (length xs) + i))
      else Inl IndexError)"

text \<open>The number a Python value denotes (\<^verbatim>\<open>bool\<close> is a subclass of \<^verbatim>\<open>int\<close>).\<close>

fun as_number :: "json \<Rightarrow> real option" where
  "as_number (JInt n) = Some (real_of_int n)"
| "as_number (JFloat x) = Some x"
| "as_number (JBool b) = Some (if b then 1 else 0)"
| "as_number _ = None"

text \<open>Iterating a value: a list gives its elements, a string its characters, a dict its
  keys; nothing else is iterable.\<close>

fun py_iter :: "json \<Rightarrow> py_error + json list" where
  "py_iter (JArr xs) = Inr xs"
| "py_iter (JStr s) = Inr (map (\<lambda>c. JStr [c]) s)"
| "py_iter (JObj kvs) = Inr (map (\<lambda>kv. JStr (fst kv)) kvs)"
| "py_iter _ = Inl TypeError"

text \<open>\<^verbatim>\<open>max(e, 0.01)\<close>: the second argument is returned only when it is greater than the
  first; comparing a non-number with a float raises \<^verbatim>\<open>TypeError\<close>.\<close>

definition py_max_001 :: "json \<Rightarrow> py_error + real" where
  "py_max_001 e =
     (case as_number e of
        None \<Rightarrow> Inl TypeError
      | Some x \<Rightarrow> Inr (if 0.01 > x then 0.01 else x))"

text \<open>The comprehension \<^verbatim>\<open>[max(e, 0.01) for e in extent]\<close>, stopping at the first
  element that raises.\<close>

fun clamp_extent :: "json list \<Rightarrow> py_error + real list" where
  "clamp_extent [] = Inr []"
| "clamp_extent (e # es) =
     (case py_max_001 e of
        Inl err \<Rightarrow> Inl err
      | Inr x \<Rightarrow> (case clamp_extent es of Inl err \<Rightarrow> Inl err | Inr xs \<Rightarrow> Inr (x # xs)))"

section \<open>The box mesh\<close>

text \<open>A triangle mesh as far as the script touches it: vertex positions and vertex
  colours. The faces of the box play no part in what follows and are left out.\<close>

record triangle_mesh =
  vertices :: "vec3 list"
  vertex_colors :: "vec3 list"

text \<open>
  Modelled from the spec: the geometry library (Open3D) is not under src/. Its box
  primitive \<^verbatim>\<open>TriangleMesh.create_box(width, height, depth)\<close> has one corner at the origin
  and extends in the positive direction along each axis; the library refuses a dimension
  that is not positive.
\<close>

definition create_box :: "real \<Rightarrow> real \<Rightarrow> real \<Rightarrow> py_error + triangle_mesh" where
  "create_box width height depth =
     (if width \<le> 0 \<or> height \<le> 0 \<or> depth \<le> 0 then Inl RuntimeError
      else Inr \<lparr> vertices =
                  [(0, 0, 0), (width, 0, 0), (0, 0, depth), (width, 0, depth),
                   (0, height, 0), (width, height, 0), (0, height, depth),
                   (width, height, depth)],
                vertex_colors = [] \<rparr>)"

text \<open>
  Modelled from the spec: the argument of \<^verbatim>\<open>translate\<close> must convert to a vector of three
  numbers; the call then moves every vertex by it (the library's default is a relative
  translation).
\<close>

fun as_vector3d :: "json \<Rightarrow> py_error + vec3" where
  "as_vector3d (JArr [a, b, c]) =
     (case (as_number a, as_number b, as_number c) of
        (Some x, Some y, Some z) \<Rightarrow> Inr (x, y, z)
      | _ \<Rightarrow> Inl TypeError)"
| "as_vector3d _ = Inl TypeError"

definition translate :: "triangle_mesh \<Rightarrow> vec3 \<Rightarrow> triangle_mesh" where
  "translate m t = m\<lparr> vertices := map (\<lambda>v. vec_add v t) (vertices m) \<rparr>"

text \<open>Modelled from the spec: \<^verbatim>\<open>paint_uniform_color\<close> gives every vertex the one colour.\<close>

definition paint_uniform_color :: "triangle_mesh \<Rightarrow> vec3 \<Rightarrow> triangle_mesh" where
  "paint_uniform_color m c = m\<lparr> vertex_colors := map (\<lambda>_. c) (vertices m) \<rparr>"

text \<open>\<^verbatim>\<open>extent[i]\<close> on the clamped list, for the indices 0, 1 and 2 of the source.\<close>

definition extent_at :: "real list \<Rightarrow> nat \<Rightarrow> py_error + real" where
  "extent_at xs i = (if i < length xs then Inr (xs ! i) else Inl IndexError)"

text \<open>
  The live definition of \<^verbatim>\<open>create_colored_box\<close> (lines 100 to 114); the parameters
  \<^verbatim>\<open>label\<close> and \<^verbatim>\<open>description\<close> are never read. The centre and the extent are the
  values read from the JSON record, the colour comes from the driver's palette.
\<close>

definition create_colored_box :: "json \<Rightarrow> json \<Rightarrow> vec3 \<Rightarrow> py_error + triangle_mesh" where
  "create_colored_box center extent color =
     (case py_iter extent of Inl err \<Rightarrow> Inl err | Inr es \<Rightarrow>
     (case clamp_extent es of Inl err \<Rightarrow> Inl err | Inr extent' \<Rightarrow>
     (case extent_at extent' 0 of Inl err \<Rightarrow> Inl err | Inr e0 \<Rightarrow>
     (case extent_at extent' 1 of Inl err \<Rightarrow> Inl err | Inr e1 \<Rightarrow>
     (case extent_at extent' 2 of Inl err \<Rightarrow> Inl err | Inr e2 \<Rightarrow>
     (case create_box (2 * e0) (2 * e1) (2 * e2) of Inl err \<Rightarrow> Inl err | Inr box \<Rightarrow>
     (case as_vector3d center of Inl err \<Rightarrow> Inl err | Inr t \<Rightarrow>
        Inr (paint_uniform_color (translate box t) color))))))))"

text \<open>
  The first definition of \<^verbatim>\<open>create_colored_box\<close> (lines 5 to 22), which the second one
  replaces when the module is loaded. It is taken on three-number inputs only: it builds
  the same primitive without clamping and translates it by \<open>center - extent\<close>.
\<close>

definition create_colored_box_shadowed :: "vec3 \<Rightarrow> vec3 \<Rightarrow> vec3 \<Rightarrow> py_error + triangle_mesh" where
  "create_colored_box_shadowed center extent color =
     (case extent of (e0, e1, e2) \<Rightarrow>
     (case center of (c0, c1, c2) \<Rightarrow>
     (case create_box (2 * e0) (2 * e1) (2 * e2) of
        Inl err \<Rightarrow> Inl err
      | Inr box \<Rightarrow> Inr (paint_uniform_color (translate box (c0 - e0, c1 - e1, c2 - e2)) color))))"

text \<open>
  Measurements of a mesh, as the library defines them: the centre is the mean of the
  vertices, the bounds are the componentwise minimum and maximum, and the half-extent
  is half the difference of the bounds. An empty mesh measures zero.
\<close>

definition list_min :: "real list \<Rightarrow> real" where
  "list_min xs = (case xs of [] \<Rightarrow> 0 | x # rest \<Rightarrow> fold min rest x)"

definition list_max :: "real list \<Rightarrow> real" where
  "list_max xs = (case xs of [] \<Rightarrow> 0 | x # rest \<Rightarrow> fold max rest x)"

definition get_min_bound :: "triangle_mesh \<Rightarrow> vec3" where
  "get_min_bound m =
     (list_min (map fst (vertices m)), list_min (map (fst \<circ> snd) (vertices m)),
      list_min (map (snd \<circ> snd) (vertices m)))"

definition get_max_bound :: "triangle_mesh \<Rightarrow> vec3" where
  "get_max_bound m =
     (list_max (map fst (vertices m)), list_max (map (fst \<circ> snd) (vertices m)),
      list_max (map (snd \<circ> snd) (vertices m)))"

definition get_center :: "triangle_mesh \<Rightarrow> vec3" where
  "get_center m =
     (if vertices m = [] then (0, 0, 0)
      else (case fold vec_add (vertices m) (0, 0, 0) of
              (sx, sy, sz) \<Rightarrow>
                (sx / real (length (vertices m)), sy / real (length (vertices m)),
                 sz / real (length (vertices m)))))"

definition half_extent :: "triangle_mesh \<Rightarrow> vec3" where
  "half_extent m =
     (case get_min_bound m of (lx, ly, lz) \<Rightarrow>
     (case get_max_bound m of (hx, hy, hz) \<Rightarrow>
        ((hx - lx) / 2, (hy - ly) / 2, (hz - lz) / 2)))"

section \<open>The driver\<close>

datatype geometry = Box triangle_mesh | Frustum line_set

text \<open>The state of the script while it runs: the list \<^verbatim>\<open>geometries\<close> and what the
  handler has printed, one entry (object id, exception) per message.\<close>

record driver_state =
  geometries :: "geometry list"
  printed :: "(json \<times> py_error) list"

definition color_palette :: "vec3 list" where
  "color_palette = [(1, 0, 0), (0, 1, 0), (0, 0, 1), (1, 1, 0), (1, 0, 1), (0, 1, 1)]"

text \<open>
  \<^verbatim>\<open>color_palette[obj["id"] % len(color_palette)]\<close> for the value read from the record.
  An int (or bool) id gives an index in range. For any other value either \<^verbatim>\<open>%\<close> raises
  or its result is not an int and the list refuses it as an index; the model reports
  all of these as \<^verbatim>\<open>TypeError\<close>.
\<close>

fun palette_color :: "json \<Rightarrow> py_error + vec3" where
  "palette_color (JInt n) = list_index color_palette (n mod int (length color_palette))"
| "palette_color (JBool b) =
     list_index color_palette ((if b then 1 else 0) mod int (length color_palette))"
| "palette_color _ = Inl TypeError"

text \<open>
  The loop of lines 142 to 151 over \<^verbatim>\<open>concept_graph.items()\<close>. The three field reads
  and the colour lookup stand before the \<^verbatim>\<open>try\<close>; the handler reads \<^verbatim>\<open>obj['id']\<close>
  again for its message. \<open>Inl\<close> is an exception that leaves the loop.
\<close>

fun box_loop :: "(string \<times> json) list \<Rightarrow> driver_state \<Rightarrow> py_error + driver_state" where
  "box_loop [] st = Inr st"
| "box_loop ((key, obj) # rest) st =
     (case getitem_key obj ''bbox_center'' of Inl err \<Rightarrow> Inl err | Inr bbox_center \<Rightarrow>
     (case getitem_key obj ''bbox_extent'' of Inl err \<Rightarrow> Inl err | Inr bbox_extent \<Rightarrow>
     (case getitem_key obj ''id'' of Inl err \<Rightarrow> Inl err | Inr ident \<Rightarrow>
     (case palette_color ident of Inl err \<Rightarrow> Inl err | Inr color \<Rightarrow>
     (case create_colored_box bbox_center bbox_extent color of
        Inr box \<Rightarrow> box_loop rest (st\<lparr> geometries := geometries st @ [Box box] \<rparr>)
      | Inl e \<Rightarrow>
          (case getitem_key obj ''id'' of
             Inl err \<Rightarrow> Inl err
           | Inr shown \<Rightarrow> box_loop rest (st\<lparr> printed := printed st @ [(shown, e)] \<rparr>)))))))"

text \<open>\<^verbatim>\<open>np.deg2rad\<close> and the matrix of lines 162 to 169, from the angles in degrees.\<close>

definition deg2rad :: "real \<Rightarrow> real" where
  "deg2rad x = x * (pi / 180)"

definition rotation_matrix :: "real \<Rightarrow> real \<Rightarrow> real \<Rightarrow> mat3" where
  "rotation_matrix yaw_deg pitch_deg roll_deg =
     (let yaw = deg2rad yaw_deg;
          pitch = deg2rad pitch_deg;
          roll = deg2rad roll_deg
      in ((cos yaw * cos pitch,
           cos yaw * sin pitch * sin roll - sin yaw * cos roll,
           cos yaw * sin pitch * cos roll + sin yaw * sin roll),
          (sin yaw * cos pitch,
           sin yaw * sin pitch * sin roll + cos yaw * cos roll,
           sin yaw * sin pitch * cos roll - cos yaw * sin roll),
          (- sin pitch, cos pitch * sin roll, cos pitch * cos roll)))"

text \<open>A camera record whose six numbers are all present, and the loop of lines 158 to
  171 over such records.\<close>

record camera_pose =
  cam_x :: real
  cam_y :: real
  cam_z :: real
  cam_yaw :: real
  cam_pitch :: real
  cam_roll :: real

fun camera_loop :: "camera_pose list \<Rightarrow> driver_state \<Rightarrow> driver_state" where
  "camera_loop [] st = st"
| "camera_loop (cam # rest) st =
     (let translation = (cam_x cam, cam_y cam, cam_z cam);
          frustum = create_camera_frustum_default translation
                      (rotation_matrix (cam_yaw cam) (cam_pitch cam) (cam_roll cam))
      in camera_loop rest (st\<lparr> geometries := geometries st @ [Frustum frustum] \<rparr>))"

text \<open>The script up to the call of the viewer: the state the viewer is given.\<close>

definition run_driver :: "json \<Rightarrow> camera_pose list \<Rightarrow> py_error + driver_state" where
  "run_driver concept_graph cameras =
     (case items concept_graph of Inl err \<Rightarrow> Inl err | Inr kvs \<Rightarrow>
     (case box_loop kvs \<lparr> geometries = [], printed = [] \<rparr> of
        Inl err \<Rightarrow> Inl err
      | Inr st \<Rightarrow> Inr (camera_loop cameras st)))"

text \<open>
  The specification's composition: the elementary rotations about the z, y and x axes
  and the product of two 3x3 matrices.
\<close>

definition spec_Rz :: "real \<Rightarrow> mat3" where
  "spec_Rz a = ((cos a, - sin a, 0), (sin a, cos a, 0), (0, 0, 1))"

definition spec_Ry :: "real \<Rightarrow> mat3" where
  "spec_Ry a = ((cos a, 0, sin a), (0, 1, 0), (- sin a, 0, cos a))"

definition spec_Rx :: "real \<Rightarrow> mat3" where
  "spec_Rx a = ((1, 0, 0), (0, cos a, - sin a), (0, sin a, cos a))"

definition mat_cols :: "mat3 \<Rightarrow> mat3" where
  "mat_cols M =
     (case M of ((a, b, c), (d, e, f), (g, h, i)) \<Rightarrow> ((a, d, g), (b, e, h), (c, f, i)))"

definition mat_mul :: "mat3 \<Rightarrow> mat3 \<Rightarrow> mat3" where
  "mat_mul A B =
     (case A of (a0, a1, a2) \<Rightarrow>
     (case mat_cols B of (b0, b1, b2) \<Rightarrow>
        ((dot3 a0 b0, dot3 a0 b1, dot3 a0 b2),
         (dot3 a1 b0, dot3 a1 b1, dot3 a1 b2),
         (dot3 a2 b0, dot3 a2 b1, dot3 a2 b2))))"

section \<open>Properties of the frustum\<close>

lemma project_corners_acc:
  "project_corners fx fy cx cy depth uvs acc =
     acc @ map (camera_point fx fy cx cy depth) uvs"
  by (induction uvs arbitrary: acc) (auto simp: camera_point_def Let_def)

lemma row_times_transpose_N3:
  "row_times r (transpose_N3 ps) = map (fdot3 r) ps"
proof (induction ps)
  case Nil
  show ?case by (cases r) (simp add: transpose_N3_def)
next
  case (Cons p ps)
  obtain a b c where r: "r = (a, b, c)" by (cases r)
  obtain x y z where p: "p = (x, y, z)" by (cases p)
  from Cons show ?case
    by (simp add: r p transpose_N3_def fdot3_def)
qed

lemma transpose_3N_maps:
  "transpose_3N (map f ps, map g ps, map h ps) = map (\<lambda>p. (f p, g p, h p)) ps"
  by (induction ps) simp_all

lemma rotate_rows:
  "transpose_3N (matmul_3N R (transpose_N3 ps)) = map (mat_vec R) ps"
proof -
  obtain r0 r1 r2 where R: "R = (r0, r1, r2)" by (cases R)
  show ?thesis
    by (simp add: R matmul_3N_def row_times_transpose_N3 transpose_3N_maps mat_vec_def)
qed

lemma frustum_points:
  "points (create_camera_frustum t R fx fy cx cy width height depth) =
     fin3 t # map (\<lambda>uv. spec_world_point R t (camera_point fx fy cx cy depth uv))
               (corners_2d width height)"
  by (simp add: create_camera_frustum_def Let_def project_corners_acc rotate_rows
      broadcast_add_def spec_world_point_def del: project_corners.simps)

lemma corners_2d_values:
  "map (\<lambda>(u, v). (np_float u, np_float v)) (corners_2d width height) =
     [(Fin 0, Fin 0), (Fin (py_real width), Fin 0),
      (Fin (py_real width), Fin (py_real height)), (Fin 0, Fin (py_real height))]"
  by (cases width; cases height) simp_all

lemma sint_sub_exact:
  fixes a c :: "64 word"
  assumes "in_int64 (sint a - sint c)"
  shows "sint (a - c) = sint a - sint c"
  using assms
  by (simp add: in_int64_def sint_word_ariths signed_take_bit_int_eq_self)

lemma sint_mul_exact:
  fixes a d :: "64 word"
  assumes "in_int64 (sint a * sint d)"
  shows "sint (a * d) = sint a * sint d"
  using assms
  by (simp add: in_int64_def sint_word_ariths signed_take_bit_int_eq_self)

lemma coordinate_int64:
  assumes "sub_mul_exact a c d"
  shows "np_truediv (np_mul (np_sub (I64 a) c) d) f =
     fdiv_finite (Fin ((real_of_int (sint a) - py_real c) * py_real d)) (py_real f)"
proof (cases c)
  case (PyInt ci)
  show ?thesis
  proof (cases d)
    case (PyInt di)
    from assms have s: "in_int64 (sint a - sint ci)"
      and m: "in_int64 ((sint a - sint ci) * sint di)"
      by (simp_all add: \<open>c = PyInt ci\<close> PyInt)
    have "sint ((a - ci) * di) = (sint a - sint ci) * sint di"
      using sint_mul_exact [of "a - ci" di] m by (simp add: sint_sub_exact [OF s])
    then show ?thesis
      by (simp add: \<open>c = PyInt ci\<close> PyInt np_truediv_def)
  next
    case (PyFloat dr)
    from assms have s: "in_int64 (sint a - sint ci)"
      by (simp add: \<open>c = PyInt ci\<close> PyFloat)
    show ?thesis
      by (simp add: \<open>c = PyInt ci\<close> PyFloat np_truediv_def sint_sub_exact [OF s])
  qed
next
  case (PyFloat cr)
  show ?thesis
    by (cases d) (simp_all add: PyFloat np_truediv_def)
qed

lemma coordinate_float64:
  "np_truediv (np_mul (np_sub (F64 (Fin x)) c) d) f =
     fdiv_finite (Fin ((x - py_real c) * py_real d)) (py_real f)"
  by (cases c; cases d) (simp_all add: np_truediv_def)

lemma camera_point_int64:
  assumes "sub_mul_exact a cx depth" and "sub_mul_exact b cy depth"
  shows "camera_point fx fy cx cy depth (I64 a, I64 b) =
     spec_unproject (py_real fx) (py_real fy) (py_real cx) (py_real cy) (py_real depth)
       (real_of_int (sint a), real_of_int (sint b))"
  by (simp only: camera_point_def spec_unproject_def prod.case
      coordinate_int64 [OF assms(1)] coordinate_int64 [OF assms(2)])

lemma camera_point_float64:
  "camera_point fx fy cx cy depth (F64 (Fin x), F64 (Fin y)) =
     spec_unproject (py_real fx) (py_real fy) (py_real cx) (py_real cy) (py_real depth) (x, y)"
  by (simp only: camera_point_def spec_unproject_def prod.case coordinate_float64)

lemma camera_points_exact:
  assumes "corners_exact width height cx cy depth"
  shows "map (camera_point fx fy cx cy depth) (corners_2d width height) =
     map (spec_unproject (py_real fx) (py_real fy) (py_real cx) (py_real cy) (py_real depth))
       [(0, 0), (py_real width, 0), (py_real width, py_real height), (0, py_real height)]"
proof (cases width)
  case (PyInt w)
  show ?thesis
  proof (cases height)
    case (PyInt h)
    from assms have e: "sub_mul_exact 0 cx depth" "sub_mul_exact w cx depth"
      "sub_mul_exact 0 cy depth" "sub_mul_exact h cy depth"
      by (simp_all add: \<open>width = PyInt w\<close> PyInt)
    have z: "real_of_int (sint (0::64 word)) = 0" by simp
    show ?thesis
      using camera_point_int64 [OF e(1) e(3), of fx fy] camera_point_int64 [OF e(2) e(3), of fx fy]
        camera_point_int64 [OF e(2) e(4), of fx fy] camera_point_int64 [OF e(1) e(4), of fx fy]
      by (simp only: \<open>width = PyInt w\<close> PyInt corners_2d.simps list.map py_real.simps z)
  next
    case (PyFloat h)
    show ?thesis
      by (simp only: \<open>width = PyInt w\<close> PyFloat corners_2d.simps list.map py_real.simps
          camera_point_float64)
  qed
next
  case (PyFloat w)
  show ?thesis
    by (cases height)
      (simp_all only: PyFloat corners_2d.simps list.map py_real.simps camera_point_float64)
qed

text \<open>
  C6. Whatever the camera pose, the rotation matrix and the intrinsics, the line set has
  exactly five points, the camera centre at index 0 and then the image corners top-left,
  top-right, bottom-right, bottom-left (each the world-frame image of the row that the
  loop computes for that corner), and exactly eight segments: the spokes 0-1, 0-2, 0-3,
  0-4 and the image-plane edges 1-2, 2-3, 3-4, 4-1.
\<close>

theorem frustum_five_points_eight_lines:
  "length (points (create_camera_frustum t R fx fy cx cy width height depth)) = 5 \<and>
   points (create_camera_frustum t R fx fy cx cy width height depth) =
     fin3 t # map (\<lambda>uv. spec_world_point R t (camera_point fx fy cx cy depth uv))
                (corners_2d width height) \<and>
   map (\<lambda>(u, v). (np_float u, np_float v)) (corners_2d width height) =
     [(Fin 0, Fin 0), (Fin (py_real width), Fin 0),
      (Fin (py_real width), Fin (py_real height)), (Fin 0, Fin (py_real height))] \<and>
   length (lines (create_camera_frustum t R fx fy cx cy width height depth)) = 8 \<and>
   lines (create_camera_frustum t R fx fy cx cy width height depth) =
     [(0, 1), (0, 2), (0, 3), (0, 4), (1, 2), (2, 3), (3, 4), (4, 1)]"
proof -
  have n: "length (corners_2d width height) = 4"
    by (cases width; cases height) simp_all
  have l: "lines (create_camera_frustum t R fx fy cx cy width height depth) =
     [(0, 1), (0, 2), (0, 3), (0, 4), (1, 2), (2, 3), (3, 4), (4, 1)]"
    by (simp add: create_camera_frustum_def Let_def)
  show ?thesis
    by (simp only: frustum_points corners_2d_values l n list.size length_map) simp
qed

text \<open>
  C5, as the code has it. Provided the int64 arithmetic of the loop is exact (when
  width, height and cx, respectively cy, are ints, the difference of the pixel coordinate
  and cx, respectively cy, lies in the int64 range, and so does its product with an int
  depth), every pixel corner \<open>(u, v)\<close> is unprojected to the camera-frame point
  \<open>((u - cx) * depth / fx, (v - cy) * depth / fy, depth)\<close>, a coordinate being non-finite
  when its divisor is zero, and taken to the world frame as \<open>R @ cam_point + t\<close>: the
  points after the camera centre are exactly these, in the order of the corners.
\<close>

theorem frustum_corners_pinhole:
  assumes "corners_exact width height cx cy depth"
  shows "tl (points (create_camera_frustum t R fx fy cx cy width height depth)) =
     map (\<lambda>(u, v). fvec_add
            (mat_vec R (fdiv_finite (Fin ((u - py_real cx) * py_real depth)) (py_real fx),
                        fdiv_finite (Fin ((v - py_real cy) * py_real depth)) (py_real fy),
                        Fin (py_real depth)))
            (fin3 t))
       [(0, 0), (py_real width, 0), (py_real width, py_real height), (0, py_real height)]"
proof -
  have "tl (points (create_camera_frustum t R fx fy cx cy width height depth)) =
      map (spec_world_point R t) (map (camera_point fx fy cx cy depth) (corners_2d width height))"
    by (simp add: frustum_points)
  also have "\<dots> = map (spec_world_point R t)
      (map (spec_unproject (py_real fx) (py_real fy) (py_real cx) (py_real cy) (py_real depth))
        [(0, 0), (py_real width, 0), (py_real width, py_real height), (0, py_real height)])"
    by (simp only: camera_points_exact [OF assms])
  finally show ?thesis
    by (simp add: spec_world_point_def spec_unproject_def)
qed

text \<open>The default intrinsics with the camera at \<open>(1, 2, 3)\<close> and the identity rotation.\<close>

theorem frustum_corners_pinhole_witness:
  "corners_exact (PyInt 640) (PyInt 480) (PyInt 320) (PyInt 240) (PyFloat 5) \<and>
   tl (points (create_camera_frustum (1, 2, 3) identity3 (PyInt 500) (PyInt 500) (PyInt 320)
         (PyInt 240) (PyInt 640) (PyInt 480) (PyFloat 5))) =
     [(Fin (- 2.2), Fin (- 0.4), Fin 8), (Fin 4.2, Fin (- 0.4), Fin 8),
      (Fin 4.2, Fin 4.4, Fin 8), (Fin (- 2.2), Fin 4.4, Fin 8)]"
proof -
  have h: "corners_exact (PyInt 640) (PyInt 480) (PyInt 320) (PyInt 240) (PyFloat 5)"
    by (simp add: in_int64_def)
  show ?thesis
    using h frustum_corners_pinhole [OF h, of "(1, 2, 3)" identity3 "PyInt 500" "PyInt 500"]
    by (simp add: mat_vec_def fdot3_def fvec_add_def fin3_def identity3_def)
qed

text \<open>
  Without the proviso the formula fails. With the int width \<open>2^63 - 1\<close> and \<open>cx = -1\<close>
  the difference \<open>u - cx\<close> of the right-hand corners is \<open>2^63\<close>, which int64 wraps
  around to \<open>- 2^63\<close>: the corners are not the ones the formula gives.
\<close>

theorem int64_wrap_counterexample:
  "tl (points (create_camera_frustum (0, 0, 0) identity3 (PyInt 500) (PyInt 500) (PyInt (- 1))
         (PyInt 240) (PyInt 9223372036854775807) (PyInt 480) (PyFloat 5))) \<noteq>
     map (\<lambda>(u, v). fvec_add
            (mat_vec identity3
               (fdiv_finite (Fin ((u - (- 1)) * 5)) 500, fdiv_finite (Fin ((v - 240) * 5)) 500,
                Fin 5))
            (fin3 (0, 0, 0)))
       [(0, 0), (9223372036854775807, 0), (9223372036854775807, 480), (0, 480)]"
  by (simp add: frustum_points camera_point_def np_truediv_def spec_world_point_def
      mat_vec_def fdot3_def fvec_add_def fin3_def identity3_def)

text \<open>What the code returns there for the top-right corner, and what a focal length
  zero gives.\<close>

lemma int64_wrap_value:
  "points (create_camera_frustum (0, 0, 0) identity3 (PyInt 500) (PyInt 500) (PyInt (- 1))
         (PyInt 240) (PyInt 9223372036854775807) (PyInt 480) (PyFloat 5)) ! 2 =
   (Fin (- 92233720368547758.08), Fin (- 2.4), Fin 5)"
  by (simp add: frustum_points camera_point_def np_truediv_def spec_world_point_def
      mat_vec_def fdot3_def fvec_add_def fin3_def identity3_def)

lemma zero_focal_length_nonfinite:
  "points (create_camera_frustum (0, 0, 0) identity3 (PyInt 0) (PyInt 500) (PyInt 320)
         (PyInt 240) (PyInt 640) (PyInt 480) (PyFloat 5)) ! 1 =
   (NonFinite, NonFinite, NonFinite)"
  by (simp add: frustum_points camera_point_def np_truediv_def spec_world_point_def
      mat_vec_def fdot3_def fvec_add_def fin3_def identity3_def)

text \<open>
  C9. Point 0 of the line set is the camera translation itself; a different rotation
  matrix or different intrinsics leave it unchanged.
\<close>

theorem frustum_point0_is_translation:
  "points (create_camera_frustum t R fx fy cx cy width height depth) ! 0 = fin3 t \<and>
   points (create_camera_frustum t R' fx' fy' cx' cy' width' height' depth') ! 0 =
     points (create_camera_frustum t R fx fy cx cy width height depth) ! 0"
  by (simp add: frustum_points)

text \<open>
  C2, as the code computes it. For a camera at the origin with the identity rotation and
  depth 5 (the default float or the int), fx = fy = 500, cx = 320, cy = 240, width 640,
  height 480, point 0 is \<open>(0, 0, 0)\<close> and points 1 to 4 are exactly \<open>(-3.2, -2.4, 5)\<close>,
  \<open>(3.2, -2.4, 5)\<close>, \<open>(3.2, 2.4, 5)\<close>, \<open>(-3.2, 2.4, 5)\<close>: the corner offset
  320 * 5 / 500 is 3.2 and 240 * 5 / 500 is 2.4.
\<close>

theorem default_frustum_points:
  "points (create_camera_frustum (0, 0, 0) identity3 (PyInt 500) (PyInt 500) (PyInt 320)
       (PyInt 240) (PyInt 640) (PyInt 480) (PyFloat 5)) =
     [(Fin 0, Fin 0, Fin 0), (Fin (-3.2), Fin (-2.4), Fin 5), (Fin 3.2, Fin (-2.4), Fin 5),
      (Fin 3.2, Fin 2.4, Fin 5), (Fin (-3.2), Fin 2.4, Fin 5)] \<and>
   points (create_camera_frustum (0, 0, 0) identity3 (PyInt 500) (PyInt 500) (PyInt 320)
       (PyInt 240) (PyInt 640) (PyInt 480) (PyInt 5)) =
     [(Fin 0, Fin 0, Fin 0), (Fin (-3.2), Fin (-2.4), Fin 5), (Fin 3.2, Fin (-2.4), Fin 5),
      (Fin 3.2, Fin 2.4, Fin 5), (Fin (-3.2), Fin 2.4, Fin 5)]"
  by (simp add: frustum_points camera_point_def np_truediv_def spec_world_point_def
      mat_vec_def fdot3_def fvec_add_def fin3_def identity3_def)

text \<open>The values \<open>(-1.6, -1.2, 5)\<close> and so on are not what these inputs give, with
  either depth.\<close>

theorem default_frustum_counterexample:
  "points (create_camera_frustum (0, 0, 0) identity3 (PyInt 500) (PyInt 500) (PyInt 320)
       (PyInt 240) (PyInt 640) (PyInt 480) (PyFloat 5)) \<noteq>
     [(Fin 0, Fin 0, Fin 0), (Fin (-1.6), Fin (-1.2), Fin 5), (Fin 1.6, Fin (-1.2), Fin 5),
      (Fin 1.6, Fin 1.2, Fin 5), (Fin (-1.6), Fin 1.2, Fin 5)] \<and>
   points (create_camera_frustum (0, 0, 0) identity3 (PyInt 500) (PyInt 500) (PyInt 320)
       (PyInt 240) (PyInt 640) (PyInt 480) (PyInt 5)) \<noteq>
     [(Fin 0, Fin 0, Fin 0), (Fin (-1.6), Fin (-1.2), Fin 5), (Fin 1.6, Fin (-1.2), Fin 5),
      (Fin 1.6, Fin 1.2, Fin 5), (Fin (-1.6), Fin 1.2, Fin 5)]"
  by (simp add: frustum_points camera_point_def np_truediv_def spec_world_point_def
      mat_vec_def fdot3_def fvec_add_def fin3_def identity3_def)

section \<open>Properties of the rotation matrix\<close>

text \<open>
  C7. For every yaw, pitch and roll in degrees, the driver's matrix, built from the
  angles in radians by the closed formula whose third row is
  \<open>(- sin pitch, cos pitch * sin roll, cos pitch * cos roll)\<close>, is the composition
  \<open>Rz(yaw) * Ry(pitch) * Rx(roll)\<close> of the elementary rotations.
\<close>

theorem rotation_matrix_is_tait_bryan:
  "rotation_matrix yaw pitch roll =
     mat_mul (mat_mul (spec_Rz (deg2rad yaw)) (spec_Ry (deg2rad pitch))) (spec_Rx (deg2rad roll)) \<and>
   snd (snd (rotation_matrix yaw pitch roll)) =
     (- sin (deg2rad pitch), cos (deg2rad pitch) * sin (deg2rad roll),
      cos (deg2rad pitch) * cos (deg2rad roll))"
  by (simp add: rotation_matrix_def mat_mul_def mat_cols_def dot3_def
      spec_Rz_def spec_Ry_def spec_Rx_def Let_def algebra_simps)

section \<open>Properties of the box\<close>

lemma py_max_001_number:
  "as_number e = Some x \<Longrightarrow> py_max_001 e = Inr (max x (1 / 100))"
  by (auto simp: py_max_001_def max_def)

lemma clamp_extent_three:
  assumes "as_number a = Some ex" "as_number b = Some ey" "as_number c = Some ez"
  shows "clamp_extent [a, b, c] = Inr [max ex (1 / 100), max ey (1 / 100), max ez (1 / 100)]"
  by (simp add: py_max_001_number assms)

lemma create_box_positive:
  assumes "0 < w" "0 < h" "0 < d"
  shows "create_box w h d =
     Inr \<lparr> vertices = [(0, 0, 0), (w, 0, 0), (0, 0, d), (w, 0, d),
                        (0, h, 0), (w, h, 0), (0, h, d), (w, h, d)],
            vertex_colors = [] \<rparr>"
  using assms by (simp add: create_box_def)

lemma clamped_positive: "0 < 2 * max (x::real) (1 / 100)"
  by (simp add: max_def)

lemma create_colored_box_numeric:
  assumes "as_number a = Some ex" "as_number b = Some ey" "as_number c = Some ez"
    and "as_vector3d center = Inr t"
  shows "create_colored_box center (JArr [a, b, c]) col =
     Inr \<lparr> vertices = map (\<lambda>v. vec_add v t)
              [(0, 0, 0), (2 * max ex (1 / 100), 0, 0), (0, 0, 2 * max ez (1 / 100)),
               (2 * max ex (1 / 100), 0, 2 * max ez (1 / 100)),
               (0, 2 * max ey (1 / 100), 0), (2 * max ex (1 / 100), 2 * max ey (1 / 100), 0),
               (0, 2 * max ey (1 / 100), 2 * max ez (1 / 100)),
               (2 * max ex (1 / 100), 2 * max ey (1 / 100), 2 * max ez (1 / 100))],
            vertex_colors = replicate 8 col \<rparr>"
  by (simp add: create_colored_box_def clamp_extent_three [OF assms(1-3)] extent_at_def
      create_box_positive [OF clamped_positive clamped_positive clamped_positive]
      assms(4) translate_def paint_uniform_color_def numeral_eq_Suc
      del: clamp_extent.simps)

lemma colored_box_half_extent:
  assumes "as_number a = Some ex" "as_number b = Some ey" "as_number c = Some ez"
    and "as_vector3d center = Inr t"
  shows "map_sum id half_extent (create_colored_box center (JArr [a, b, c]) col) =
     Inr (max ex (1 / 100), max ey (1 / 100), max ez (1 / 100))"
proof -
  obtain tx ty tz where t: "t = (tx, ty, tz)" by (cases t)
  have px: "0 < max ex (1 / 100)" and py: "0 < max ey (1 / 100)" and pz: "0 < max ez (1 / 100)"
    by (simp_all add: max_def)
  show ?thesis
    using px py pz
    by (simp add: create_colored_box_numeric [OF assms] t half_extent_def get_min_bound_def
        get_max_bound_def list_min_def list_max_def vec_add_def)
qed

text \<open>
  Where the live definition puts the box: its minimum corner is the given centre, so the
  centre of the box is the given centre plus the clamped extent.
\<close>

lemma colored_box_center:
  assumes "as_number a = Some ex" "as_number b = Some ey" "as_number c = Some ez"
    and "as_vector3d center = Inr (tx, ty, tz)"
  shows "map_sum id get_center (create_colored_box center (JArr [a, b, c]) col) =
     Inr (tx + max ex (1 / 100), ty + max ey (1 / 100), tz + max ez (1 / 100))"
  by (simp add: create_colored_box_numeric [OF assms] get_center_def vec_add_def)

text \<open>The first definition, with its translation by \<open>center - extent\<close>, does centre the
  box on the given point.\<close>

lemma shadowed_box_center:
  assumes "0 < ex" "0 < ey" "0 < ez"
  shows "map_sum id get_center (create_colored_box_shadowed (tx, ty, tz) (ex, ey, ez) col) =
     Inr (tx, ty, tz)"
  using assms
  by (simp add: create_colored_box_shadowed_def create_box_def translate_def
      paint_uniform_color_def get_center_def vec_add_def)

text \<open>
  C1 asks that the centre of the built box be the given centre. The live definition at
  centre \<open>[0, 0, 0]\<close>, extent \<open>[1, 1, 1]\<close> and colour red builds the box from
  \<open>(0, 0, 0)\<close> to \<open>(2, 2, 2)\<close>, whose centre is \<open>(1, 1, 1)\<close>.
\<close>

theorem live_box_center_is_offset:
  "map_sum id (\<lambda>box. (get_min_bound box, get_center box, get_max_bound box))
     (create_colored_box (JArr [JInt 0, JInt 0, JInt 0]) (JArr [JInt 1, JInt 1, JInt 1]) (1, 0, 0)) =
   Inr ((0, 0, 0), (1, 1, 1), (2, 2, 2))"
proof -
  have "create_colored_box (JArr [JInt 0, JInt 0, JInt 0]) (JArr [JInt 1, JInt 1, JInt 1]) (1, 0, 0) =
     Inr \<lparr> vertices = [(0, 0, 0), (2, 0, 0), (0, 0, 2), (2, 0, 2),
                        (0, 2, 0), (2, 2, 0), (0, 2, 2), (2, 2, 2)],
            vertex_colors = replicate 8 (1, 0, 0) \<rparr>"
    using create_colored_box_numeric [of "JInt 1" 1 "JInt 1" 1 "JInt 1" 1
        "JArr [JInt 0, JInt 0, JInt 0]" "(0, 0, 0)" "(1, 0, 0)"]
    by (simp add: vec_add_def)
  then show ?thesis
    by (simp add: get_center_def get_min_bound_def get_max_bound_def list_min_def list_max_def
        vec_add_def)
qed

text \<open>
  C4. For an extent of three numbers and a centre of three numbers, the live definition
  builds the library primitive with every dimension twice the extent component clamped
  to at least 0.01, and raises nothing. The half-extent of the built box is the clamped
  extent on every axis; on an axis whose extent component is at most 0.01 (zero and
  negative values included) it is exactly 0.01.
\<close>

theorem extent_clamped_to_minimum:
  assumes "as_number a = Some ex" "as_number b = Some ey" "as_number c = Some ez"
    and "as_vector3d center = Inr t"
  shows "\<exists>prim box.
     create_box (2 * max ex 0.01) (2 * max ey 0.01) (2 * max ez 0.01) = Inr prim \<and>
     create_colored_box center (JArr [a, b, c]) col = Inr box \<and>
     box = paint_uniform_color (translate prim t) col \<and>
     half_extent box = (max ex 0.01, max ey 0.01, max ez 0.01) \<and>
     (ex \<le> 0.01 \<longrightarrow> fst (half_extent box) = 0.01) \<and>
     (ey \<le> 0.01 \<longrightarrow> fst (snd (half_extent box)) = 0.01) \<and>
     (ez \<le> 0.01 \<longrightarrow> snd (snd (half_extent box)) = 0.01)"
proof -
  define prim where "prim =
     \<lparr> vertices = [(0, 0, 0), (2 * max ex (1 / 100), 0, 0), (0, 0, 2 * max ez (1 / 100)),
                    (2 * max ex (1 / 100), 0, 2 * max ez (1 / 100)),
                    (0, 2 * max ey (1 / 100), 0), (2 * max ex (1 / 100), 2 * max ey (1 / 100), 0),
                    (0, 2 * max ey (1 / 100), 2 * max ez (1 / 100)),
                    (2 * max ex (1 / 100), 2 * max ey (1 / 100), 2 * max ez (1 / 100))],
        vertex_colors = [] \<rparr>"
  define box where "box = paint_uniform_color (translate prim t) col"
  have prim: "create_box (2 * max ex (1 / 100)) (2 * max ey (1 / 100)) (2 * max ez (1 / 100)) =
      Inr prim"
    unfolding prim_def
    by (rule create_box_positive [OF clamped_positive clamped_positive clamped_positive])
  have built: "create_colored_box center (JArr [a, b, c]) col = Inr box"
    by (simp add: create_colored_box_numeric [OF assms] box_def prim_def translate_def
        paint_uniform_color_def numeral_eq_Suc)
  have half: "half_extent box = (max ex (1 / 100), max ey (1 / 100), max ez (1 / 100))"
    using colored_box_half_extent [OF assms, of col] by (simp add: built)
  have hx: "ex \<le> 1 / 100 \<longrightarrow> fst (half_extent box) = 1 / 100"
    and hy: "ey \<le> 1 / 100 \<longrightarrow> fst (snd (half_extent box)) = 1 / 100"
    and hz: "ez \<le> 1 / 100 \<longrightarrow> snd (snd (half_extent box)) = 1 / 100"
    by (simp_all add: half max_def)
  have "create_box (2 * max ex 0.01) (2 * max ey 0.01) (2 * max ez 0.01) = Inr prim \<and>
     create_colored_box center (JArr [a, b, c]) col = Inr box \<and>
     box = paint_uniform_color (translate prim t) col \<and>
     half_extent box = (max ex 0.01, max ey 0.01, max ez 0.01) \<and>
     (ex \<le> 0.01 \<longrightarrow> fst (half_extent box) = 0.01) \<and>
     (ey \<le> 0.01 \<longrightarrow> fst (snd (half_extent box)) = 0.01) \<and>
     (ez \<le> 0.01 \<longrightarrow> snd (snd (half_extent box)) = 0.01)"
    using prim built half hx hy hz box_def by simp
  then show ?thesis by blast
qed

text \<open>The clamp at work: extent \<open>[0, -2, 3]\<close> at centre \<open>[1, 2, 3]\<close> gives the
  half-extent \<open>(0.01, 0.01, 3)\<close>.\<close>

theorem extent_clamped_to_minimum_witness:
  "as_number (JInt 0) = Some 0 \<and> as_number (JFloat (- 2)) = Some (- 2) \<and>
   as_number (JFloat 3) = Some 3 \<and>
   as_vector3d (JArr [JFloat 1, JFloat 2, JFloat 3]) = Inr (1, 2, 3) \<and>
   map_sum id half_extent
     (create_colored_box (JArr [JFloat 1, JFloat 2, JFloat 3])
        (JArr [JInt 0, JFloat (- 2), JFloat 3]) (1, 0, 0)) = Inr (0.01, 0.01, 3)"
proof -
  have h1: "as_number (JInt 0) = Some 0" by simp
  have h2: "as_number (JFloat (- 2)) = Some (- 2)" by simp
  have h3: "as_number (JFloat 3) = Some 3" by simp
  have h4: "as_vector3d (JArr [JFloat 1, JFloat 2, JFloat 3]) = Inr (1, 2, 3)" by simp
  from extent_clamped_to_minimum [OF h1 h2 h3 h4, of "(1, 0, 0)"]
  obtain box where
    "create_colored_box (JArr [JFloat 1, JFloat 2, JFloat 3])
        (JArr [JInt 0, JFloat (- 2), JFloat 3]) (1, 0, 0) = Inr box"
    and "half_extent box = (max 0 0.01, max (- 2) 0.01, max 3 0.01)"
    by blast
  then show ?thesis using h1 h2 h3 h4 by simp
qed

section \<open>Properties of the driver\<close>

text \<open>An exception in a prefix of the records ends the loop; otherwise the loop goes on
  with the remaining records from the state the prefix left.\<close>

lemma box_loop_append:
  "box_loop (pre @ post) st =
     (case box_loop pre st of Inl err \<Rightarrow> Inl err | Inr st' \<Rightarrow> box_loop post st')"
proof (induction pre arbitrary: st)
  case Nil
  show ?case by simp
next
  case (Cons kv pre)
  obtain key obj where kv: "kv = (key, obj)" by (cases kv)
  show ?case
    by (simp add: kv Cons.IH split: sum.splits)
qed

lemma palette_color_int:
  "palette_color (JInt n) = Inr (color_palette ! nat (n mod 6))"
  by (simp add: list_index_def color_palette_def)

text \<open>
  C3, as the code has it. When the three fields of a record have been read and its colour
  picked, and the call of \<^verbatim>\<open>create_colored_box\<close> raises, the driver prints the
  record's id with the exception, adds nothing to the geometry list and goes on with the
  records that follow, after however many records came before.
\<close>

theorem box_loop_skips_failed_box:
  assumes "box_loop pre st = Inr st'"
    and "getitem_key obj ''bbox_center'' = Inr c"
    and "getitem_key obj ''bbox_extent'' = Inr e"
    and "getitem_key obj ''id'' = Inr i"
    and "palette_color i = Inr col"
    and "create_colored_box c e col = Inl err"
  shows "box_loop (pre @ (key, obj) # rest) st =
           box_loop rest (st'\<lparr> printed := printed st' @ [(i, err)] \<rparr>)"
  using assms by (simp add: box_loop_append)

text \<open>A record with an empty extent list: the call raises \<^verbatim>\<open>IndexError\<close>, which is
  printed with the id 7, and the run ends normally with no geometry.\<close>

theorem box_loop_skips_failed_box_witness:
  "box_loop [] \<lparr> geometries = [], printed = [] \<rparr> = Inr \<lparr> geometries = [], printed = [] \<rparr> \<and>
   getitem_key (JObj [(''id'', JInt 7), (''bbox_center'', JArr [JInt 0, JInt 0, JInt 0]),
                      (''bbox_extent'', JArr [])]) ''bbox_center'' =
     Inr (JArr [JInt 0, JInt 0, JInt 0]) \<and>
   getitem_key (JObj [(''id'', JInt 7), (''bbox_center'', JArr [JInt 0, JInt 0, JInt 0]),
                      (''bbox_extent'', JArr [])]) ''bbox_extent'' = Inr (JArr []) \<and>
   getitem_key (JObj [(''id'', JInt 7), (''bbox_center'', JArr [JInt 0, JInt 0, JInt 0]),
                      (''bbox_extent'', JArr [])]) ''id'' = Inr (JInt 7) \<and>
   palette_color (JInt 7) = Inr (0, 1, 0) \<and>
   create_colored_box (JArr [JInt 0, JInt 0, JInt 0]) (JArr []) (0, 1, 0) = Inl IndexError \<and>
   box_loop ([] @ (''k'', JObj [(''id'', JInt 7), (''bbox_center'', JArr [JInt 0, JInt 0, JInt 0]),
                                (''bbox_extent'', JArr [])]) # [])
     \<lparr> geometries = [], printed = [] \<rparr> =
     Inr \<lparr> geometries = [], printed = [(JInt 7, IndexError)] \<rparr>"
proof -
  let ?obj = "JObj [(''id'', JInt 7), (''bbox_center'', JArr [JInt 0, JInt 0, JInt 0]),
                    (''bbox_extent'', JArr [])]"
  let ?st = "\<lparr> geometries = [], printed = [] \<rparr>"
  have h0: "box_loop [] ?st = Inr ?st" by simp
  have h1: "getitem_key ?obj ''bbox_center'' = Inr (JArr [JInt 0, JInt 0, JInt 0])" by simp
  have h2: "getitem_key ?obj ''bbox_extent'' = Inr (JArr [])" by simp
  have h3: "getitem_key ?obj ''id'' = Inr (JInt 7)" by simp
  have h4: "palette_color (JInt 7) = Inr (0, 1, 0)"
    by (simp add: list_index_def color_palette_def)
  have h5: "create_colored_box (JArr [JInt 0, JInt 0, JInt 0]) (JArr []) (0, 1, 0) = Inl IndexError"
    by (simp add: create_colored_box_def extent_at_def)
  show ?thesis
    using h0 h1 h2 h3 h4 h5
      box_loop_skips_failed_box [OF h0 h1 h2 h3 h4 h5, of "''k''" "[]"]
    by simp
qed

text \<open>A first record without \<^verbatim>\<open>bbox_center\<close> ends the run with \<^verbatim>\<open>KeyError\<close>; the
  well-formed record after it is never processed.\<close>

theorem missing_bbox_center_counterexample:
  "run_driver
     (JObj [(''0'', JObj [(''id'', JInt 0), (''bbox_extent'', JArr [JFloat 1, JFloat 1, JFloat 1])]),
            (''1'', JObj [(''id'', JInt 1), (''bbox_center'', JArr [JFloat 0, JFloat 0, JFloat 0]),
                          (''bbox_extent'', JArr [JFloat 1, JFloat 1, JFloat 1])])]) [] =
   Inl (KeyError ''bbox_center'')"
  by (simp add: run_driver_def)

text \<open>
  C10. The reads of \<^verbatim>\<open>bbox_center\<close>, \<^verbatim>\<open>bbox_extent\<close> and \<^verbatim>\<open>id\<close> stand before the
  \<^verbatim>\<open>try\<close>: for a record that lacks one of the three keys, after any records that were
  processed without an exception leaving the loop, the \<^verbatim>\<open>KeyError\<close> of the first missing
  key (in the order of the reads) leaves the loop, whatever records follow.
\<close>

theorem missing_key_aborts:
  assumes "box_loop pre st = Inr st'"
    and "map_of kvs ''bbox_center'' = None \<or> map_of kvs ''bbox_extent'' = None
         \<or> map_of kvs ''id'' = None"
  shows "box_loop (pre @ (key, JObj kvs) # rest) st =
           Inl (KeyError (if map_of kvs ''bbox_center'' = None then ''bbox_center''
                          else if map_of kvs ''bbox_extent'' = None then ''bbox_extent''
                          else ''id''))"
  using assms by (auto simp: box_loop_append split: option.splits)

text \<open>A record without \<^verbatim>\<open>id\<close>, between an empty prefix and a well-formed record.\<close>

theorem missing_key_aborts_witness:
  "box_loop [] \<lparr> geometries = [], printed = [] \<rparr> = Inr \<lparr> geometries = [], printed = [] \<rparr> \<and>
   (map_of [(''bbox_center'', JArr [JInt 0, JInt 0, JInt 0]),
            (''bbox_extent'', JArr [JInt 1, JInt 1, JInt 1])] ''bbox_center'' = None \<or>
    map_of [(''bbox_center'', JArr [JInt 0, JInt 0, JInt 0]),
            (''bbox_extent'', JArr [JInt 1, JInt 1, JInt 1])] ''bbox_extent'' = None \<or>
    map_of [(''bbox_center'', JArr [JInt 0, JInt 0, JInt 0]),
            (''bbox_extent'', JArr [JInt 1, JInt 1, JInt 1])] ''id'' = None) \<and>
   box_loop ([] @ (''a'', JObj [(''bbox_center'', JArr [JInt 0, JInt 0, JInt 0]),
                                (''bbox_extent'', JArr [JInt 1, JInt 1, JInt 1])]) #
               [(''b'', JObj [(''id'', JInt 1), (''bbox_center'', JArr [JInt 0, JInt 0, JInt 0]),
                              (''bbox_extent'', JArr [JInt 1, JInt 1, JInt 1])])])
     \<lparr> geometries = [], printed = [] \<rparr> = Inl (KeyError ''id'')"
proof -
  let ?kvs = "[(''bbox_center'', JArr [JInt 0, JInt 0, JInt 0]),
               (''bbox_extent'', JArr [JInt 1, JInt 1, JInt 1])]"
  let ?st = "\<lparr> geometries = [], printed = [] \<rparr>"
  have h0: "box_loop [] ?st = Inr ?st" by simp
  have h1: "map_of ?kvs ''bbox_center'' = None \<or> map_of ?kvs ''bbox_extent'' = None
            \<or> map_of ?kvs ''id'' = None" by simp
  show ?thesis
    using h0 h1
      missing_key_aborts [OF h0 h1, of "''a''"
        "[(''b'', JObj [(''id'', JInt 1), (''bbox_center'', JArr [JInt 0, JInt 0, JInt 0]),
                        (''bbox_extent'', JArr [JInt 1, JInt 1, JInt 1])])]"]
    by simp
qed

text \<open>
  C8. For a record whose id is a non-negative integer \<open>n\<close>, the colour handed to
  \<^verbatim>\<open>create_colored_box\<close> is entry \<open>n mod 6\<close> of the fixed palette red, green, blue,
  yellow, magenta, cyan, and the record is processed with that colour.
\<close>

theorem palette_by_id:
  assumes "getitem_key obj ''bbox_center'' = Inr c"
    and "getitem_key obj ''bbox_extent'' = Inr e"
    and "getitem_key obj ''id'' = Inr (JInt n)"
    and "0 \<le> n"
  shows "color_palette = [(1, 0, 0), (0, 1, 0), (0, 0, 1), (1, 1, 0), (1, 0, 1), (0, 1, 1)] \<and>
         palette_color (JInt n) = Inr (color_palette ! nat (n mod 6)) \<and>
         box_loop ((key, obj) # rest) st =
           (case create_colored_box c e (color_palette ! nat (n mod 6)) of
              Inr box \<Rightarrow> box_loop rest (st\<lparr> geometries := geometries st @ [Box box] \<rparr>)
            | Inl err \<Rightarrow> box_loop rest (st\<lparr> printed := printed st @ [(JInt n, err)] \<rparr>))"
proof -
  have pal: "color_palette = [(1, 0, 0), (0, 1, 0), (0, 0, 1), (1, 1, 0), (1, 0, 1), (0, 1, 1)]"
    by (simp add: color_palette_def)
  have step: "box_loop ((key, obj) # rest) st =
           (case create_colored_box c e (color_palette ! nat (n mod 6)) of
              Inr box \<Rightarrow> box_loop rest (st\<lparr> geometries := geometries st @ [Box box] \<rparr>)
            | Inl err \<Rightarrow> box_loop rest (st\<lparr> printed := printed st @ [(JInt n, err)] \<rparr>))"
    using assms(1-3) by (simp add: palette_color_int del: palette_color.simps split: sum.splits)
  from pal palette_color_int step show ?thesis by blast
qed

text \<open>The id 10 picks entry 4 of the palette, magenta, and the box is built in it.\<close>

theorem palette_by_id_witness:
  "getitem_key (JObj [(''id'', JInt 10), (''bbox_center'', JArr [JInt 0, JInt 0, JInt 0]),
                      (''bbox_extent'', JArr [JInt 1, JInt 1, JInt 1])]) ''bbox_center'' =
     Inr (JArr [JInt 0, JInt 0, JInt 0]) \<and>
   getitem_key (JObj [(''id'', JInt 10), (''bbox_center'', JArr [JInt 0, JInt 0, JInt 0]),
                      (''bbox_extent'', JArr [JInt 1, JInt 1, JInt 1])]) ''bbox_extent'' =
     Inr (JArr [JInt 1, JInt 1, JInt 1]) \<and>
   getitem_key (JObj [(''id'', JInt 10), (''bbox_center'', JArr [JInt 0, JInt 0, JInt 0]),
                      (''bbox_extent'', JArr [JInt 1, JInt 1, JInt 1])]) ''id'' = Inr (JInt 10) \<and>
   (0::int) \<le> 10 \<and>
   palette_color (JInt 10) = Inr (1, 0, 1) \<and>
   map_sum id (\<lambda>st. (map (\<lambda>g. case g of Box m \<Rightarrow> vertex_colors m | Frustum l \<Rightarrow> [])
                          (geometries st), printed st))
     (box_loop [(''k'', JObj [(''id'', JInt 10), (''bbox_center'', JArr [JInt 0, JInt 0, JInt 0]),
                              (''bbox_extent'', JArr [JInt 1, JInt 1, JInt 1])])]
        \<lparr> geometries = [], printed = [] \<rparr>) =
     Inr ([replicate 8 (1, 0, 1)], [])"
proof -
  let ?obj = "JObj [(''id'', JInt 10), (''bbox_center'', JArr [JInt 0, JInt 0, JInt 0]),
                    (''bbox_extent'', JArr [JInt 1, JInt 1, JInt 1])]"
  have h1: "getitem_key ?obj ''bbox_center'' = Inr (JArr [JInt 0, JInt 0, JInt 0])" by simp
  have h2: "getitem_key ?obj ''bbox_extent'' = Inr (JArr [JInt 1, JInt 1, JInt 1])" by simp
  have h3: "getitem_key ?obj ''id'' = Inr (JInt 10)" by simp
  have h4: "(0::int) \<le> 10" by simp
  have col: "color_palette ! nat (10 mod 6) = (1, 0, 1)"
    by (simp add: color_palette_def)
  have built: "create_colored_box (JArr [JInt 0, JInt 0, JInt 0]) (JArr [JInt 1, JInt 1, JInt 1])
      (1, 0, 1) =
     Inr \<lparr> vertices = [(0, 0, 0), (2, 0, 0), (0, 0, 2), (2, 0, 2),
                        (0, 2, 0), (2, 2, 0), (0, 2, 2), (2, 2, 2)],
            vertex_colors = replicate 8 (1, 0, 1) \<rparr>"
    using create_colored_box_numeric [of "JInt 1" 1 "JInt 1" 1 "JInt 1" 1
        "JArr [JInt 0, JInt 0, JInt 0]" "(0, 0, 0)" "(1, 0, 1)"]
    by (simp add: vec_add_def)
  from palette_by_id [OF h1 h2 h3 h4, of "''k''" "[]" "\<lparr> geometries = [], printed = [] \<rparr>"]
  have pc: "palette_color (JInt 10) = Inr (color_palette ! nat (10 mod 6))"
    and step: "box_loop [(''k'', ?obj)] \<lparr> geometries = [], printed = [] \<rparr> =
      (case create_colored_box (JArr [JInt 0, JInt 0, JInt 0]) (JArr [JInt 1, JInt 1, JInt 1])
              (color_palette ! nat (10 mod 6)) of
         Inr box \<Rightarrow> box_loop [] (\<lparr> geometries = [], printed = [] \<rparr>
                        \<lparr> geometries := geometries \<lparr> geometries = [], printed = [] \<rparr> @ [Box box] \<rparr>)
       | Inl err \<Rightarrow> box_loop [] (\<lparr> geometries = [], printed = [] \<rparr>
                        \<lparr> printed := printed \<lparr> geometries = [], printed = [] \<rparr> @ [(JInt 10, err)] \<rparr>))"
    by blast+
  have res: "box_loop [(''k'', ?obj)] \<lparr> geometries = [], printed = [] \<rparr> =
      Inr \<lparr> geometries = [Box \<lparr> vertices = [(0, 0, 0), (2, 0, 0), (0, 0, 2), (2, 0, 2),
                        (0, 2, 0), (2, 2, 0), (0, 2, 2), (2, 2, 2)],
            vertex_colors = replicate 8 (1, 0, 1) \<rparr>], printed = [] \<rparr>"
    unfolding step col built by simp
  show ?thesis
    using h1 h2 h3 pc by (simp only: res col) simp
qed

end
